theory Spec2Isabelle
  imports Complex_Main
begin

section \<open>Python values shared by the client's methods\<close>

text \<open>
  Exceptions are values. Only the exceptions that \<^verbatim>\<open>client.py\<close> raises itself, that
  the language raises for its own expressions, or that a library call passes up are listed.
\<close>

datatype py_error =
    ValueError string
  | RuntimeError string
  | ZeroDivisionError
  | UnboundLocalError string
  | FileNotFoundError
  | FileExistsError
  | NotADirectoryError
  | IsADirectoryError

text \<open>
  A tensor is modelled by its entries in storage order, each entry an exact real (the
  rounding of the float arithmetic is not modelled). A parameter set (the
  \<^verbatim>\<open>OrderedDict\<close> returned by \<^verbatim>\<open>state_dict()\<close>) is the list of its
  items in order.
\<close>

type_synonym tensor = "real list"
type_synonym state_dict = "(string \<times> tensor) list"

section \<open>Evaluation metrics: \<^verbatim>\<open>calculate_class_precision\<close>, \<^verbatim>\<open>calculate_class_recall\<close>\<close>

text \<open>
  The result of numpy's true division is a float64: a finite value, an infinity or
  not-a-number. With the default error state a zero divisor gives a warning, not an
  exception.
\<close>

datatype npfloat = Finite real | PosInf | NegInf | NaN

fun isfinite :: "npfloat \<Rightarrow> bool" where
  "isfinite (Finite x) = True"
| "isfinite PosInf = False"
| "isfinite NegInf = False"
| "isfinite NaN = False"

definition np_true_divide :: "int \<Rightarrow> int \<Rightarrow> npfloat" where
  "np_true_divide a b =
     (if b \<noteq> 0 then Finite (real_of_int a / real_of_int b)
      else if a = 0 then NaN
      else if 0 < a then PosInf
      else NegInf)"

text \<open>
  \<^verbatim>\<open>a / b\<close> on one-dimensional arrays: elementwise when the lengths agree, an
  array of length one is broadcast, anything else is numpy's
  \<^verbatim>\<open>ValueError: operands could not be broadcast together\<close>.
\<close>

definition np_divide :: "int list \<Rightarrow> int list \<Rightarrow> py_error + npfloat list" where
  "np_divide xs ys =
     (if length xs = length ys then Inr (map2 np_true_divide xs ys)
      else if length xs = 1 then Inr (map (np_true_divide (hd xs)) ys)
      else if length ys = 1 then Inr (map (\<lambda>x. np_true_divide x (hd ys)) xs)
      else Inl (ValueError ''operands could not be broadcast together''))"

text \<open>A two-dimensional integer array is the list of its rows, all of one length.\<close>

type_synonym matrix = "int list list"

definition ncols :: "matrix \<Rightarrow> nat" where
  "ncols m = (case m of [] \<Rightarrow> 0 | r # _ \<Rightarrow> length r)"

definition np_diagonal :: "matrix \<Rightarrow> int list" where
  "np_diagonal m = map (\<lambda>i. m ! i ! i) [0..<min (length m) (ncols m)]"

definition np_sum_axis0 :: "matrix \<Rightarrow> int list" where
  "np_sum_axis0 m = map (\<lambda>j. sum_list (map (\<lambda>r. r ! j) m)) [0..<ncols m]"

definition np_sum_axis1 :: "matrix \<Rightarrow> int list" where
  "np_sum_axis1 m = map sum_list m"

definition calculate_class_precision :: "matrix \<Rightarrow> py_error + npfloat list" where
  "calculate_class_precision confusion_mat =
     np_divide (np_diagonal confusion_mat) (np_sum_axis0 confusion_mat)"

definition calculate_class_recall :: "matrix \<Rightarrow> py_error + npfloat list" where
  "calculate_class_recall confusion_mat =
     np_divide (np_diagonal confusion_mat) (np_sum_axis1 confusion_mat)"

text \<open>A confusion matrix is square: one row and one column for each class.\<close>

definition square :: "matrix \<Rightarrow> bool" where
  "square m = list_all (\<lambda>r. length r = length m) m"

section \<open>The client's state and its collaborators\<close>

text \<open>
  What a caller can hand to \<^verbatim>\<open>diff_squared_sum\<close>: an \<^verbatim>\<open>nn.Module\<close> (given by the
  items of its \<^verbatim>\<open>named_parameters()\<close>), an \<^verbatim>\<open>OrderedDict\<close>, a plain \<^verbatim>\<open>dict\<close>,
  or an object of another type.
\<close>

datatype py_object =
    NNModule state_dict
  | OrderedDict state_dict
  | PlainDict state_dict
  | NoneObject

datatype log_record =
    Debug string
  | DebugArgs string "string list"
  | Info string
  | InfoLoss int nat real
  | Warning string
  | DebugAccuracy int int real
  | DebugLoss real
  | DebugReport "nat list" "nat list"
  | DebugConfusion matrix
  | DebugPrecision "npfloat list"
  | DebugRecall "npfloat list"

text \<open>
  The calls that leave the process or change the network, in program order. The list is
  not a field of the Python class: it records what the methods did.
\<close>

datatype call =
    OsMkdir string
  | TorchSave string state_dict
  | TorchLoad string "string option"
  | LoadStateDict
  | OptimizerStep
  | SchedulerStep

record rng_state =
  torch_seed :: "int option"
  np_seed :: "int option"
  py_seed :: "int option"
  cudnn_deterministic :: bool
  cudnn_benchmark :: bool

type_synonym 'x batch = "('x \<times> nat) list"

text \<open>
  The fields of \<^verbatim>\<open>Client\<close>, then the part of the process the client acts on: the
  file system (of a type \<open>'f\<close> that the operating system's calls below act on), the
  logger's output, the random-number generators and the list of calls.
\<close>

record ('x, 'o, 's, 'f) client =
  client_idx :: int
  net :: state_dict
  net_training :: bool
  optimizer :: 'o
  scheduler :: 's
  mu :: real
  train_data_loader :: "'x batch list"
  test_data_loader :: "'x batch list"
  fs :: 'f
  logger :: "log_record list"
  rng :: rng_state
  calls :: "call list"

text \<open>The accessors of \<^verbatim>\<open>self.args\<close> that the methods below read.\<close>

record arguments =
  log_interval :: int
  save_model_folder_path :: string
  cr_save_start_suffix :: string
  cr_save_end_suffix :: string

text \<open>
  The deep-learning framework and the operating system are not part of the repository;
  their operations are parameters. \<open>forward_loss\<close> is \<^verbatim>\<open>loss_function(net(inputs), labels)\<close> in training
  mode (it may update buffers of the network); \<open>backward_step\<close> is
  \<^verbatim>\<open>loss.backward(); optimizer.step()\<close>, told whether the proximal term was added and
  with which coefficient and snapshot; \<open>predict\<close> is the arg-max of the network's output
  for one sample in evaluation mode; \<open>model_class\<close> is the parameter set of a freshly
  constructed network; \<open>torch_load\<close> and \<open>load_state_dict\<close> may fail, and
  \<open>load_state_dict\<close> returns the network as it left it. \<open>os_path_exists\<close> is
  \<^verbatim>\<open>os.path.exists\<close>; \<open>os_mkdir\<close> is \<^verbatim>\<open>os.mkdir\<close>, which either raises or returns
  the file system with the directory made; \<open>torch_save\<close> is \<^verbatim>\<open>torch.save\<close>, which may
  fail and returns the file system as it left it.
\<close>

record ('x, 'o, 's, 'f) framework =
  forward_loss :: "state_dict \<Rightarrow> 'x batch \<Rightarrow> real \<times> state_dict"
  backward_step :: "'o \<Rightarrow> state_dict \<Rightarrow> 'x batch \<Rightarrow> (real \<times> state_dict) option \<Rightarrow> 'o \<times> state_dict"
  scheduler_step :: "'s \<Rightarrow> 'o \<Rightarrow> 's \<times> 'o"
  predict :: "state_dict \<Rightarrow> 'x \<Rightarrow> nat"
  eval_loss :: "state_dict \<Rightarrow> 'x batch \<Rightarrow> real"
  model_class :: state_dict
  torch_load :: "'f \<Rightarrow> string \<Rightarrow> string option \<Rightarrow> py_error + state_dict"
  load_state_dict :: "state_dict \<Rightarrow> state_dict \<Rightarrow> bool \<Rightarrow> py_error option \<times> state_dict"
  os_path_exists :: "'f \<Rightarrow> string \<Rightarrow> bool"
  os_mkdir :: "'f \<Rightarrow> string \<Rightarrow> py_error + 'f"
  torch_save :: "'f \<Rightarrow> state_dict \<Rightarrow> string \<Rightarrow> py_error option \<times> 'f"

section \<open>Strings and paths\<close>

definition digit_char :: "nat \<Rightarrow> char" where
  "digit_char d = ''0123456789'' ! d"

function str_nat :: "nat \<Rightarrow> string" where
  "str_nat n = (if n < 10 then [digit_char n] else str_nat (n div 10) @ [digit_char (n mod 10)])"
  by pat_completeness auto
termination
  by (relation "measure id") auto

declare str_nat.simps [simp del]

text \<open>\<^verbatim>\<open>str(i)\<close> for a Python integer.\<close>

definition str_int :: "int \<Rightarrow> string" where
  "str_int i = (if i < 0 then ''-'' @ str_nat (nat (- i)) else str_nat (nat i))"

text \<open>\<^verbatim>\<open>os.path.join(a, b)\<close> on a POSIX system.\<close>

definition os_path_join :: "string \<Rightarrow> string \<Rightarrow> string" where
  "os_path_join a b =
     (if b \<noteq> [] \<and> hd b = CHR ''/'' then b
      else if a = [] \<or> last a = CHR ''/'' then a @ b
      else a @ ''/'' @ b)"

section \<open>Parameter exchange and the parameter distance\<close>

definition get_nn_parameters :: "('x, 'o, 's, 'f) client \<Rightarrow> state_dict" where
  "get_nn_parameters c = net c"

definition get_mu :: "('x, 'o, 's, 'f) client \<Rightarrow> real" where
  "get_mu c = mu c"

text \<open>
  \<^verbatim>\<open>self.net.load_state_dict(copy.deepcopy(new_params), strict=True)\<close>: whatever the
  framework's loader raises is passed up, and the network is as the loader left it.
\<close>

definition update_nn_parameters ::
  "('x, 'o, 's, 'f) framework \<Rightarrow> ('x, 'o, 's, 'f) client \<Rightarrow> state_dict \<Rightarrow> (py_error + unit) \<times> ('x, 'o, 's, 'f) client" where
  "update_nn_parameters fw c new_params =
     (case load_state_dict fw (net c) new_params True of
        (None, net') \<Rightarrow> (Inr (), c\<lparr>net := net', calls := calls c @ [LoadStateDict]\<rparr>)
      | (Some e, net') \<Rightarrow> (Inl e, c\<lparr>net := net', calls := calls c @ [LoadStateDict]\<rparr>))"

text \<open>
  \<^verbatim>\<open>param1 - param2\<close> on tensors: elementwise when the sizes agree, a tensor with one
  entry is broadcast, anything else is the framework's size-mismatch error.
\<close>

definition tensor_sub :: "tensor \<Rightarrow> tensor \<Rightarrow> py_error + tensor" where
  "tensor_sub a b =
     (if length a = length b then Inr (map2 (-) a b)
      else if length a = 1 then Inr (map (\<lambda>y. hd a - y) b)
      else if length b = 1 then Inr (map (\<lambda>x. x - hd b) a)
      else Inl (RuntimeError ''The size of tensor a must match the size of tensor b''))"

text \<open>The loop body \<^verbatim>\<open>if name in params1: dss += ((param1 - param2) ** 2).sum()\<close>.\<close>

fun dss_loop :: "state_dict \<Rightarrow> (string \<times> tensor) list \<Rightarrow> real \<Rightarrow> py_error + real" where
  "dss_loop params1 [] dss = Inr dss"
| "dss_loop params1 ((name, param2) # rest) dss =
     (case map_of params1 name of
        None \<Rightarrow> dss_loop params1 rest dss
      | Some param1 \<Rightarrow>
          (case tensor_sub param1 param2 of
             Inl e \<Rightarrow> Inl e
           | Inr d \<Rightarrow> dss_loop params1 rest (dss + sum_list (map (\<lambda>x. x\<^sup>2) d))))"

definition diff_squared_sum :: "('x, 'o, 's, 'f) client \<Rightarrow> py_object \<Rightarrow> py_error + real" where
  "diff_squared_sum c model2 =
     (let params1 = get_nn_parameters c in
      case model2 of
        NNModule named_parameters \<Rightarrow> dss_loop params1 named_parameters 0
      | OrderedDict items \<Rightarrow> dss_loop params1 items 0
      | _ \<Rightarrow> Inl (ValueError
                 ''Unsupported model type. Model must be a PyTorch model or an OrderedDict.''))"

section \<open>Checkpoints: \<^verbatim>\<open>save_model\<close>\<close>

text \<open>
  A call of \<^verbatim>\<open>os.mkdir\<close>, and a call of \<^verbatim>\<open>torch.save\<close>: the call is recorded, and what
  it raises is passed up.
\<close>

definition call_os_mkdir ::
  "('x, 'o, 's, 'f) framework \<Rightarrow> ('x, 'o, 's, 'f) client \<Rightarrow> string \<Rightarrow>
   (py_error + unit) \<times> ('x, 'o, 's, 'f) client" where
  "call_os_mkdir fw c p =
     (case os_mkdir fw (fs c) p of
        Inl e \<Rightarrow> (Inl e, c\<lparr>calls := calls c @ [OsMkdir p]\<rparr>)
      | Inr fs' \<Rightarrow> (Inr (), c\<lparr>fs := fs', calls := calls c @ [OsMkdir p]\<rparr>))"

definition call_torch_save ::
  "('x, 'o, 's, 'f) framework \<Rightarrow> ('x, 'o, 's, 'f) client \<Rightarrow> state_dict \<Rightarrow> string \<Rightarrow>
   (py_error + unit) \<times> ('x, 'o, 's, 'f) client" where
  "call_torch_save fw c obj p =
     (case torch_save fw (fs c) obj p of
        (Some e, fs') \<Rightarrow> (Inl e, c\<lparr>fs := fs', calls := calls c @ [TorchSave p obj]\<rparr>)
      | (None, fs') \<Rightarrow> (Inr (), c\<lparr>fs := fs', calls := calls c @ [TorchSave p obj]\<rparr>))"

definition save_model ::
  "('x, 'o, 's, 'f) framework \<Rightarrow> arguments \<Rightarrow> ('x, 'o, 's, 'f) client \<Rightarrow> int \<Rightarrow> string \<Rightarrow>
   (py_error + unit) \<times> ('x, 'o, 's, 'f) client" where
  "save_model fw a c epoch suffix =
     (let c1 = c\<lparr>logger := logger c @
                 [DebugArgs ''Saving model to flat file storage. Save #{}'' [str_int epoch]]\<rparr>
      in case (if \<not> os_path_exists fw (fs c1) (save_model_folder_path a)
               then call_os_mkdir fw c1 (save_model_folder_path a) else (Inr (), c1)) of
           (Inl e, c2) \<Rightarrow> (Inl e, c2)
         | (Inr _, c2) \<Rightarrow>
             (let full_save_path = os_path_join (save_model_folder_path a)
                    (''model_'' @ str_int (client_idx c2) @ ''_'' @ str_int epoch @ ''_'' @ suffix @
                     ''.model'');
                  c3 = c2\<lparr>logger := logger c2 @ [Debug (''Saving model to: '' @ full_save_path)]\<rparr>
              in call_torch_save fw c3 (get_nn_parameters c3) full_save_path))"

section \<open>Training: \<^verbatim>\<open>train\<close>\<close>

text \<open>The seeding block at the head of \<^verbatim>\<open>train\<close>.\<close>

definition seed_rngs :: "int option \<Rightarrow> ('x, 'o, 's, 'f) client \<Rightarrow> ('x, 'o, 's, 'f) client" where
  "seed_rngs seed c =
     (case seed of
        None \<Rightarrow> c
      | Some s \<Rightarrow> c\<lparr>rng := \<lparr>torch_seed = Some s, np_seed = Some s, py_seed = Some s,
                            cudnn_deterministic = True, cudnn_benchmark = False\<rparr>\<rparr>)"

text \<open>
  Lines 212 to 214: the loss after the proximal term has been added, when the objective
  asks for it.
\<close>

definition add_proximal_term ::
  "string \<Rightarrow> ('x, 'o, 's, 'f) client \<Rightarrow> state_dict \<Rightarrow> real \<Rightarrow> py_error + real" where
  "add_proximal_term ty c server_model loss =
     (if ty \<in> set [''fed_prox'', ''fed_greedy''] then
        (case diff_squared_sum c (OrderedDict server_model) of
           Inl e \<Rightarrow> Inl e
         | Inr dss \<Rightarrow> Inr (loss + (get_mu c / 2) * dss))
      else Inr loss)"

text \<open>
  The loop over \<^verbatim>\<open>enumerate(self.train_data_loader, 0)\<close> of one epoch; \<open>i\<close> is the index
  of the next batch and \<open>running_loss\<close> the accumulator. A log interval of zero makes
  \<^verbatim>\<open>i % log_interval\<close> raise.
\<close>

fun train_batches ::
  "('x, 'o, 's, 'f) framework \<Rightarrow> arguments \<Rightarrow> string \<Rightarrow> state_dict \<Rightarrow> int \<Rightarrow> nat \<Rightarrow> int \<Rightarrow> nat \<Rightarrow>
   'x batch list \<Rightarrow> ('x, 'o, 's, 'f) client \<Rightarrow> real \<Rightarrow> (py_error + real) \<times> ('x, 'o, 's, 'f) client" where
  "train_batches fw a ty server_model rnd epoch epochs i [] c running_loss = (Inr running_loss, c)"
| "train_batches fw a ty server_model rnd epoch epochs i (b # rest) c running_loss =
     (case forward_loss fw (net c) b of
        (primary, net1) \<Rightarrow>
          (case add_proximal_term ty (c\<lparr>net := net1\<rparr>) server_model primary of
             Inl e \<Rightarrow> (Inl e, c\<lparr>net := net1\<rparr>)
           | Inr loss \<Rightarrow>
               (case backward_step fw (optimizer c) net1 b
                       (if ty \<in> set [''fed_prox'', ''fed_greedy'']
                        then Some (get_mu c, server_model) else None) of
                  (opt2, net2) \<Rightarrow>
                    (if log_interval a = 0 then
                       (Inl ZeroDivisionError,
                        c\<lparr>net := net2, optimizer := opt2, calls := calls c @ [OptimizerStep]\<rparr>)
                     else if int i mod log_interval a = 0 \<and> int epoch = epochs - 1 then
                       train_batches fw a ty server_model rnd epoch epochs (Suc i) rest
                         (c\<lparr>net := net2, optimizer := opt2, calls := calls c @ [OptimizerStep],
                            logger := logger c @
                              [InfoLoss rnd i ((running_loss + loss) / real_of_int (log_interval a))]\<rparr>)
                         0
                     else
                       train_batches fw a ty server_model rnd epoch epochs (Suc i) rest
                         (c\<lparr>net := net2, optimizer := opt2, calls := calls c @ [OptimizerStep]\<rparr>)
                         (running_loss + loss)))))"

text \<open>
  The loop \<^verbatim>\<open>for epoch in range(epochs)\<close> over the epochs still to run. The local
  \<^verbatim>\<open>running_loss\<close> is unbound (\<open>None\<close>) until the first epoch assigns it.
\<close>

fun train_epochs ::
  "('x, 'o, 's, 'f) framework \<Rightarrow> arguments \<Rightarrow> string \<Rightarrow> state_dict \<Rightarrow> int \<Rightarrow> int \<Rightarrow> nat list \<Rightarrow>
   ('x, 'o, 's, 'f) client \<Rightarrow> real option \<Rightarrow> (py_error + real option) \<times> ('x, 'o, 's, 'f) client" where
  "train_epochs fw a ty server_model rnd epochs [] c running_loss = (Inr running_loss, c)"
| "train_epochs fw a ty server_model rnd epochs (epoch # later) c running_loss =
     (case save_model fw a (c\<lparr>net_training := True\<rparr>) rnd (cr_save_start_suffix a) of
        (Inl e, c1) \<Rightarrow> (Inl e, c1)
      | (Inr _, c1) \<Rightarrow>
          (case train_batches fw a ty server_model rnd epoch epochs 0 (train_data_loader c1) c1 0 of
             (Inl e, c2) \<Rightarrow> (Inl e, c2)
           | (Inr running_loss', c2) \<Rightarrow>
               (case scheduler_step fw (scheduler c2) (optimizer c2) of
                  (sched', opt') \<Rightarrow>
                    train_epochs fw a ty server_model rnd epochs later
                      (c2\<lparr>scheduler := sched', optimizer := opt',
                          calls := calls c2 @ [SchedulerStep]\<rparr>)
                      (Some running_loss'))))"

definition train ::
  "('x, 'o, 's, 'f) framework \<Rightarrow> arguments \<Rightarrow> ('x, 'o, 's, 'f) client \<Rightarrow> int \<Rightarrow> int \<Rightarrow> string \<Rightarrow> int option \<Rightarrow>
   (py_error + real) \<times> ('x, 'o, 's, 'f) client" where
  "train fw a c rnd epochs ty seed =
     (let c0 = seed_rngs seed c;
          server_model = get_nn_parameters c0 in
      case train_epochs fw a ty server_model rnd epochs [0..<nat epochs] c0 None of
        (Inl e, c1) \<Rightarrow> (Inl e, c1)
      | (Inr running_loss, c1) \<Rightarrow>
          (case save_model fw a c1 rnd (cr_save_end_suffix a) of
             (Inl e, c2) \<Rightarrow> (Inl e, c2)
           | (Inr _, c2) \<Rightarrow>
               (case running_loss of
                  None \<Rightarrow> (Inl (UnboundLocalError ''running_loss''), c2)
                | Some l \<Rightarrow> (Inr l, c2))))"

section \<open>Evaluation: \<^verbatim>\<open>test\<close>\<close>

text \<open>
  \<^verbatim>\<open>sklearn.metrics.confusion_matrix(targets_, pred_)\<close>: the classes are the sorted
  labels that occur in either list; entry \<open>(t, p)\<close> counts the samples of true class \<open>t\<close>
  predicted as \<open>p\<close>.
\<close>

definition confusion_matrix :: "nat list \<Rightarrow> nat list \<Rightarrow> matrix" where
  "confusion_matrix y_true y_pred =
     (let labels = sort (remdups (y_true @ y_pred)) in
      map (\<lambda>t. map (\<lambda>p. int (length (filter (\<lambda>tp. tp = (t, p)) (zip y_true y_pred)))) labels) labels)"

text \<open>
  The pass over the test data: \<open>total\<close>, \<open>correct\<close>, the true and predicted labels and
  the summed loss (\<open>n_total\<close> is the source's \<^verbatim>\<open>total\<close>).
\<close>

fun test_batches ::
  "('x, 'o, 's, 'f) framework \<Rightarrow> state_dict \<Rightarrow> 'x batch list \<Rightarrow>
   int \<times> int \<times> nat list \<times> nat list \<times> real \<Rightarrow> int \<times> int \<times> nat list \<times> nat list \<times> real" where
  "test_batches fw params [] acc = acc"
| "test_batches fw params (b # rest) (n_total, correct, targets, preds, loss) =
     (let predicted = map (\<lambda>s. predict fw params (fst s)) b;
          labels = map snd b
      in test_batches fw params rest
           (n_total + int (length labels),
            correct + int (length (filter (\<lambda>pl. fst pl = snd pl) (zip predicted labels))),
            targets @ labels,
            preds @ predicted,
            loss + eval_loss fw params b))"

definition test ::
  "('x, 'o, 's, 'f) framework \<Rightarrow> ('x, 'o, 's, 'f) client \<Rightarrow> bool \<Rightarrow>
   (py_error + real \<times> real \<times> npfloat list \<times> npfloat list) \<times> ('x, 'o, 's, 'f) client" where
  "test fw c do_log =
     (let c1 = c\<lparr>net_training := False\<rparr> in
      case test_batches fw (net c1) (test_data_loader c1) (0, 0, [], [], 0) of
        (n_total, correct, targets, preds, loss) \<Rightarrow>
          if n_total = 0 then (Inl ZeroDivisionError, c1)
          else
            (let accuracy = real_of_int (100 * correct) / real_of_int n_total;
                 confusion_mat = confusion_matrix targets preds
             in case calculate_class_precision confusion_mat of
                  Inl e \<Rightarrow> (Inl e, c1)
                | Inr class_precision \<Rightarrow>
                    (case calculate_class_recall confusion_mat of
                       Inl e \<Rightarrow> (Inl e, c1)
                     | Inr class_recall \<Rightarrow>
                         (Inr (accuracy, loss, class_precision, class_recall),
                          if do_log then
                            c1\<lparr>logger := logger c1 @
                              [DebugAccuracy correct n_total accuracy, DebugLoss loss,
                               DebugReport targets preds, DebugConfusion confusion_mat,
                               DebugPrecision class_precision, DebugRecall class_recall]\<rparr>
                          else c1))))"

section \<open>Loading the default model: \<^verbatim>\<open>load_model_from_file\<close>\<close>

text \<open>The warning logged before the retry.\<close>

definition cpu_warning :: log_record where
  "cpu_warning = Warning ''Couldn't load model. Attempting to map CUDA tensors to CPU to solve error.''"

text \<open>
  One attempt \<^verbatim>\<open>model.load_state_dict(torch.load(path, map_location=...))\<close>: the error
  it raised, if any, the model as it left it, and the client with the calls recorded.
\<close>

definition attempt_load ::
  "('x, 'o, 's, 'f) framework \<Rightarrow> ('x, 'o, 's, 'f) client \<Rightarrow> state_dict \<Rightarrow> string \<Rightarrow> string option \<Rightarrow>
   py_error option \<times> state_dict \<times> ('x, 'o, 's, 'f) client" where
  "attempt_load fw c model model_file_path map_location =
     (case torch_load fw (fs c) model_file_path map_location of
        Inl e \<Rightarrow> (Some e, model, c\<lparr>calls := calls c @ [TorchLoad model_file_path map_location]\<rparr>)
      | Inr loaded \<Rightarrow>
          (case load_state_dict fw model loaded True of
             (err, model') \<Rightarrow>
               (err, model',
                c\<lparr>calls := calls c @ [TorchLoad model_file_path map_location, LoadStateDict]\<rparr>)))"

definition load_model_from_file ::
  "('x, 'o, 's, 'f) framework \<Rightarrow> ('x, 'o, 's, 'f) client \<Rightarrow> string \<Rightarrow>
   (py_error + state_dict) \<times> ('x, 'o, 's, 'f) client" where
  "load_model_from_file fw c model_file_path =
     (let model = model_class fw in
      if os_path_exists fw (fs c) model_file_path then
        (case attempt_load fw c model model_file_path None of
           (None, model1, c1) \<Rightarrow> (Inr model1, c1)
         | (Some e1, model1, c1) \<Rightarrow>
             (let c2 = c1\<lparr>logger := logger c1 @
                     [cpu_warning]\<rparr>
              in case attempt_load fw c2 model1 model_file_path (Some ''cpu'') of
                   (None, model2, c3) \<Rightarrow> (Inr model2, c3)
                 | (Some e2, model2, c3) \<Rightarrow> (Inl e2, c3)))
      else
        (Inr model,
         c\<lparr>logger := logger c @ [Warning (''Could not find model: '' @ model_file_path)]\<rparr>))"

text \<open>The number of attempts with the given \<^verbatim>\<open>map_location\<close> in a list of calls.\<close>

definition load_attempts :: "string option \<Rightarrow> call list \<Rightarrow> nat" where
  "load_attempts map_location cs =
     length (filter (\<lambda>k. case k of TorchLoad _ ml \<Rightarrow> ml = map_location | _ \<Rightarrow> False) cs)"

section \<open>Notions used in the statements\<close>

text \<open>The path \<^verbatim>\<open>save_model\<close> computes for a client index, a round and a suffix.\<close>

definition checkpoint_path :: "arguments \<Rightarrow> int \<Rightarrow> int \<Rightarrow> string \<Rightarrow> string" where
  "checkpoint_path a idx epoch suffix =
     os_path_join (save_model_folder_path a)
       (''model_'' @ str_int idx @ ''_'' @ str_int epoch @ ''_'' @ suffix @ ''.model'')"

text \<open>
  Every tensor of \<open>items\<close> whose name the parameter set \<open>params1\<close> has is of the size of
  the tensor under that name; this holds in \<^verbatim>\<open>train\<close>, where the snapshot is a copy of
  the network's own parameter set.
\<close>

definition same_shapes :: "state_dict \<Rightarrow> state_dict \<Rightarrow> bool" where
  "same_shapes params1 items =
     list_all (\<lambda>(name, param2).
        case map_of params1 name of None \<Rightarrow> True | Some param1 \<Rightarrow> length param1 = length param2) items"

text \<open>The summed squared elementwise difference of two tensors of one size.\<close>

definition sq_dist :: "tensor \<Rightarrow> tensor \<Rightarrow> real" where
  "sq_dist p1 p2 = (\<Sum>i<length p1. (p1 ! i - p2 ! i)\<^sup>2)"

text \<open>The number of \<^verbatim>\<open>torch.save\<close> calls to the path \<open>p\<close> in a list of calls.\<close>

definition saves_to :: "string \<Rightarrow> call list \<Rightarrow> nat" where
  "saves_to p cs = length (filter (\<lambda>k. case k of TorchSave q _ \<Rightarrow> q = p | _ \<Rightarrow> False) cs)"

section \<open>A file system and a configuration for concrete runs\<close>

text \<open>
  A POSIX file system as far as the calls above see it: the directories and the regular
  files by path. The working directory (the parent of a relative name) and the root
  exist. Paths are taken without \<^verbatim>\<open>.\<close> and \<^verbatim>\<open>..\<close> components and without repeated
  separators. Two ways to fail that the repository's code can meet are covered: a
  parent that does not exist (\<^verbatim>\<open>os.mkdir\<close> creates one level only) and a parent that is
  a regular file.
\<close>

record posix_fs =
  dirs :: "string set"
  files :: "string \<rightharpoonup> state_dict"

definition strip_slashes :: "string \<Rightarrow> string" where
  "strip_slashes p = rev (dropWhile (\<lambda>ch. ch = CHR ''/'') (rev p))"

text \<open>\<^verbatim>\<open>os.path.dirname\<close>.\<close>

definition dirname :: "string \<Rightarrow> string" where
  "dirname p =
     (let h = rev (dropWhile (\<lambda>ch. ch \<noteq> CHR ''/'') (rev p))
      in if h \<noteq> [] \<and> strip_slashes h = [] then ''/'' else strip_slashes h)"

definition is_directory :: "posix_fs \<Rightarrow> string \<Rightarrow> bool" where
  "is_directory f p = (p = ''/'' \<or> p \<in> dirs f)"

text \<open>The error, if any, of resolving the directory that is to hold the path \<open>p\<close>.\<close>

definition parent_error :: "posix_fs \<Rightarrow> string \<Rightarrow> py_error option" where
  "parent_error f p =
     (let d = dirname p
      in if d = [] \<or> is_directory f d then None
         else if files f d \<noteq> None then Some NotADirectoryError
         else Some FileNotFoundError)"

definition posix_path_exists :: "posix_fs \<Rightarrow> string \<Rightarrow> bool" where
  "posix_path_exists f p =
     (p \<noteq> [] \<and>
      (is_directory f (if strip_slashes p = [] then ''/'' else strip_slashes p) \<or> files f p \<noteq> None))"

definition posix_mkdir :: "posix_fs \<Rightarrow> string \<Rightarrow> py_error + posix_fs" where
  "posix_mkdir f p =
     (if p = [] then Inl FileNotFoundError
      else if strip_slashes p = [] then Inl FileExistsError
      else if strip_slashes p \<in> dirs f \<or> files f (strip_slashes p) \<noteq> None then Inl FileExistsError
      else (case parent_error f (strip_slashes p) of
              Some e \<Rightarrow> Inl e
            | None \<Rightarrow> Inr (f\<lparr>dirs := insert (strip_slashes p) (dirs f)\<rparr>)))"

text \<open>
  Opening the path for writing and writing the object, as \<^verbatim>\<open>torch.save\<close> does; a path
  that cannot be opened leaves the file system as it was.
\<close>

definition posix_write :: "posix_fs \<Rightarrow> state_dict \<Rightarrow> string \<Rightarrow> py_error option \<times> posix_fs" where
  "posix_write f obj p =
     (if p = [] then (Some FileNotFoundError, f)
      else if strip_slashes p = [] then (Some IsADirectoryError, f)
      else (case parent_error f (strip_slashes p) of
              Some e \<Rightarrow> (Some e, f)
            | None \<Rightarrow>
                if last p = CHR ''/'' \<or> p \<in> dirs f then (Some IsADirectoryError, f)
                else (None, f\<lparr>files := (files f)(p \<mapsto> obj)\<rparr>)))"

text \<open>
  A framework whose forward pass returns the batch size as loss, whose optimizer step
  adds one to every entry, and whose loader fails on an empty file and, without
  \<^verbatim>\<open>map_location\<close>, on every file; client 7 with the single parameter \<open>w = 1\<close>, one
  training batch and an empty working directory; save directory \<^verbatim>\<open>models\<close>, suffixes
  \<^verbatim>\<open>s\<close> and \<^verbatim>\<open>e\<close>.
\<close>

definition example_framework :: "(unit, nat, nat, posix_fs) framework" where
  "example_framework =
     \<lparr>forward_loss = (\<lambda>params b. (real (length b), params)),
      backward_step = (\<lambda>opt params b prox. (Suc opt, map (\<lambda>(n, t). (n, map (\<lambda>x. x + 1) t)) params)),
      scheduler_step = (\<lambda>s opt. (Suc s, opt)),
      predict = (\<lambda>params x. 0),
      eval_loss = (\<lambda>params b. 0),
      model_class = [(''w'', [0])],
      torch_load = (\<lambda>f p ml.
         case files f p of
           None \<Rightarrow> Inl FileNotFoundError
         | Some sd \<Rightarrow>
             if sd = [] then Inl (RuntimeError ''invalid load key'')
             else if ml = None then Inl (RuntimeError ''Attempting to deserialize object on a CUDA device'')
             else Inr sd),
      load_state_dict = (\<lambda>model sd strict. (None, sd)),
      os_path_exists = posix_path_exists,
      os_mkdir = posix_mkdir,
      torch_save = posix_write\<rparr>"

definition example_client :: "(unit, nat, nat, posix_fs) client" where
  "example_client =
     \<lparr>client_idx = 7, net = [(''w'', [1])], net_training = False, optimizer = 0, scheduler = 0,
      mu = 2, train_data_loader = [[((), 0)]], test_data_loader = [],
      fs = \<lparr>dirs = {}, files = Map.empty\<rparr>, logger = [],
      rng = \<lparr>torch_seed = None, np_seed = None, py_seed = None,
              cudnn_deterministic = False, cudnn_benchmark = False\<rparr>,
      calls = []\<rparr>"

definition example_arguments :: arguments where
  "example_arguments =
     \<lparr>log_interval = 10, save_model_folder_path = ''models'',
      cr_save_start_suffix = ''s'', cr_save_end_suffix = ''e''\<rparr>"

section \<open>Properties of the metrics\<close>

lemma square_row_length: "square m \<Longrightarrow> i < length m \<Longrightarrow> length (m ! i) = length m"
  by (simp add: square_def list_all_length)

lemma square_ncols: "square m \<Longrightarrow> ncols m = length m"
  by (cases m) (simp_all add: ncols_def square_def)

lemma np_diagonal_square:
  "square m \<Longrightarrow> np_diagonal m = map (\<lambda>i. m ! i ! i) [0..<length m]"
  by (simp add: np_diagonal_def square_ncols)

lemma column_sum_nth:
  "sum_list (map (\<lambda>r. r ! c) m) = (\<Sum>i<length m. m ! i ! c)"
proof -
  have "sum_list (map (\<lambda>r. r ! c) m) = (\<Sum>i = 0..<length m. map (\<lambda>r. r ! c) m ! i)"
    by (simp add: sum_list_sum_nth)
  also have "\<dots> = (\<Sum>i = 0..<length m. m ! i ! c)"
    by (rule sum.cong) simp_all
  finally show ?thesis
    by (simp add: lessThan_atLeast0)
qed

lemma row_sum_nth:
  "sum_list r = (\<Sum>j<length r. r ! j)"
  by (simp add: sum_list_sum_nth lessThan_atLeast0)

lemma precision_square:
  assumes "square m"
  shows "calculate_class_precision m =
           Inr (map (\<lambda>c. np_true_divide (m ! c ! c) (\<Sum>i<length m. m ! i ! c)) [0..<length m])"
proof -
  have "np_sum_axis0 m = map (\<lambda>c. \<Sum>i<length m. m ! i ! c) [0..<length m]"
    using assms by (simp add: np_sum_axis0_def square_ncols column_sum_nth)
  then show ?thesis
    using assms
    by (simp add: calculate_class_precision_def np_divide_def np_diagonal_square
        zip_map_map zip_same_conv_map comp_def)
qed

lemma recall_square:
  assumes "square m"
  shows "calculate_class_recall m =
           Inr (map (\<lambda>c. np_true_divide (m ! c ! c) (\<Sum>j<length m. m ! c ! j)) [0..<length m])"
proof -
  have "np_sum_axis1 m = map (\<lambda>c. sum_list (m ! c)) [0..<length m]"
    unfolding np_sum_axis1_def by (rule nth_equalityI) simp_all
  also have "\<dots> = map (\<lambda>c. \<Sum>j<length m. m ! c ! j) [0..<length m]"
    using assms by (simp add: row_sum_nth square_row_length)
  finally show ?thesis
    using assms
    by (simp add: calculate_class_recall_def np_divide_def np_diagonal_square
        zip_map_map zip_same_conv_map comp_def)
qed

lemma np_true_divide_zero: "\<not> isfinite (np_true_divide a 0)"
  by (simp add: np_true_divide_def)

text \<open>
  C5. On a confusion matrix (square, one row and column per class) neither function
  raises; entry \<open>c\<close> of the precision is the diagonal entry divided by the sum of column
  \<open>c\<close>, entry \<open>c\<close> of the recall is the diagonal entry divided by the sum of row \<open>c\<close>; a
  zero column or row sum gives a value that is not finite; and on \<open>[[5,1],[2,4]]\<close> the
  precision is \<open>[5/7, 4/5]\<close> and the recall \<open>[5/6, 4/6]\<close>.
\<close>

theorem precision_recall_per_class:
  "(square m \<longrightarrow>
      (\<exists>p r. calculate_class_precision m = Inr p \<and> calculate_class_recall m = Inr r \<and>
         length p = length m \<and> length r = length m \<and>
         (\<forall>c<length m.
            p ! c = np_true_divide (m ! c ! c) (\<Sum>i<length m. m ! i ! c) \<and>
            r ! c = np_true_divide (m ! c ! c) (\<Sum>j<length m. m ! c ! j) \<and>
            ((\<Sum>i<length m. m ! i ! c) = 0 \<longrightarrow> \<not> isfinite (p ! c)) \<and>
            ((\<Sum>j<length m. m ! c ! j) = 0 \<longrightarrow> \<not> isfinite (r ! c))))) \<and>
   calculate_class_precision [[5, 1], [2, 4]] = Inr [Finite (5 / 7), Finite (4 / 5)] \<and>
   calculate_class_recall [[5, 1], [2, 4]] = Inr [Finite (5 / 6), Finite (4 / 6)]"
proof (intro conjI impI)
  assume sq: "square m"
  show "\<exists>p r. calculate_class_precision m = Inr p \<and> calculate_class_recall m = Inr r \<and>
         length p = length m \<and> length r = length m \<and>
         (\<forall>c<length m.
            p ! c = np_true_divide (m ! c ! c) (\<Sum>i<length m. m ! i ! c) \<and>
            r ! c = np_true_divide (m ! c ! c) (\<Sum>j<length m. m ! c ! j) \<and>
            ((\<Sum>i<length m. m ! i ! c) = 0 \<longrightarrow> \<not> isfinite (p ! c)) \<and>
            ((\<Sum>j<length m. m ! c ! j) = 0 \<longrightarrow> \<not> isfinite (r ! c)))"
    by (simp add: precision_square [OF sq] recall_square [OF sq] np_true_divide_zero)
next
  show "calculate_class_precision [[5, 1], [2, 4]] = Inr [Finite (5 / 7), Finite (4 / 5)]"
    by (simp add: calculate_class_precision_def np_divide_def np_diagonal_def np_sum_axis0_def
        ncols_def np_true_divide_def)
next
  show "calculate_class_recall [[5, 1], [2, 4]] = Inr [Finite (5 / 6), Finite (4 / 6)]"
    by (simp add: calculate_class_recall_def np_divide_def np_diagonal_def np_sum_axis1_def
        ncols_def np_true_divide_def)
qed

text \<open>
  The theorem at the matrix \<open>[[3,0],[2,0]]\<close>, whose second column is zero: the precision
  of class 1 is not-a-number, and nothing is raised.
\<close>

theorem precision_recall_per_class_witness:
  "square [[3, 0], [2, 0]] \<and>
   (\<exists>p r. calculate_class_precision [[3, 0], [2, 0]] = Inr p \<and>
      calculate_class_recall [[3, 0], [2, 0]] = Inr r \<and>
      p = [Finite (3 / 5), NaN] \<and> r = [Finite 1, Finite 0] \<and> \<not> isfinite (p ! 1))"
proof -
  let ?m = "[[3, 0], [2, 0::int]]"
  have sq: "square ?m"
    by (simp add: square_def)
  have zero: "(\<Sum>i<length ?m. ?m ! i ! 1) = 0"
    by (simp add: lessThan_Suc numeral_2_eq_2)
  have p: "calculate_class_precision ?m = Inr [Finite (3 / 5), NaN]"
    by (simp add: calculate_class_precision_def np_divide_def np_diagonal_def np_sum_axis0_def
        ncols_def np_true_divide_def)
  have r: "calculate_class_recall ?m = Inr [Finite 1, Finite 0]"
    by (simp add: calculate_class_recall_def np_divide_def np_diagonal_def np_sum_axis1_def
        ncols_def np_true_divide_def)
  from precision_recall_per_class [of ?m] sq
  obtain p' r' where p': "calculate_class_precision ?m = Inr p'"
    and r': "calculate_class_recall ?m = Inr r'"
    and all: "\<forall>c<length ?m.
        p' ! c = np_true_divide (?m ! c ! c) (\<Sum>i<length ?m. ?m ! i ! c) \<and>
        r' ! c = np_true_divide (?m ! c ! c) (\<Sum>j<length ?m. ?m ! c ! j) \<and>
        ((\<Sum>i<length ?m. ?m ! i ! c) = 0 \<longrightarrow> \<not> isfinite (p' ! c)) \<and>
        ((\<Sum>j<length ?m. ?m ! c ! j) = 0 \<longrightarrow> \<not> isfinite (r' ! c))"
    by (elim conjE impE exE) assumption
  have "(1::nat) < length ?m" by simp
  with all have "(\<Sum>i<length ?m. ?m ! i ! 1) = 0 \<longrightarrow> \<not> isfinite (p' ! 1)"
    by blast
  with zero have "\<not> isfinite (p' ! 1)" by (rule rev_mp)
  moreover from p p' have "p' = [Finite (3 / 5), NaN]" by simp
  moreover from r r' have "r' = [Finite 1, Finite 0]" by simp
  ultimately show ?thesis using sq p' r' by blast
qed

section \<open>Facts used by the concrete runs\<close>

lemmas ex_defs = example_framework_def example_client_def example_arguments_def

lemmas str_defs = str_int_def str_nat.simps digit_char_def os_path_join_def

lemmas posix_defs = posix_path_exists_def posix_mkdir_def posix_write_def parent_error_def
  dirname_def strip_slashes_def is_directory_def

lemma upt_0_2: "[0..<2] = [0, Suc 0]"
  by (simp add: numeral_2_eq_2)

section \<open>Properties of \<^verbatim>\<open>save_model\<close>\<close>

lemma seed_rngs_fields [simp]:
  "calls (seed_rngs seed c) = calls c"
  "net (seed_rngs seed c) = net c"
  "fs (seed_rngs seed c) = fs c"
  "client_idx (seed_rngs seed c) = client_idx c"
  "logger (seed_rngs seed c) = logger c"
  by (simp_all add: seed_rngs_def split: option.splits)

lemma save_model_when_exists:
  assumes "os_path_exists fw (fs c) (save_model_folder_path a)"
  shows "fst (save_model fw a c r s) =
           (case fst (torch_save fw (fs c) (net c) (checkpoint_path a (client_idx c) r s)) of
              Some e \<Rightarrow> Inl e | None \<Rightarrow> Inr ())"
    and "fs (snd (save_model fw a c r s)) =
           snd (torch_save fw (fs c) (net c) (checkpoint_path a (client_idx c) r s))"
    and "calls (snd (save_model fw a c r s)) =
           calls c @ [TorchSave (checkpoint_path a (client_idx c) r s) (net c)]"
  using assms
  by (simp_all add: save_model_def Let_def call_torch_save_def get_nn_parameters_def
      checkpoint_path_def split: prod.splits option.splits)

lemma save_model_mkdir_fails:
  assumes "\<not> os_path_exists fw (fs c) (save_model_folder_path a)"
    and "os_mkdir fw (fs c) (save_model_folder_path a) = Inl e"
  shows "fst (save_model fw a c r s) = Inl e"
    and "fs (snd (save_model fw a c r s)) = fs c"
    and "calls (snd (save_model fw a c r s)) = calls c @ [OsMkdir (save_model_folder_path a)]"
  using assms
  by (simp_all add: save_model_def Let_def call_os_mkdir_def)

lemma save_model_mkdir_ok:
  assumes "\<not> os_path_exists fw (fs c) (save_model_folder_path a)"
    and "os_mkdir fw (fs c) (save_model_folder_path a) = Inr f1"
  shows "fst (save_model fw a c r s) =
           (case fst (torch_save fw f1 (net c) (checkpoint_path a (client_idx c) r s)) of
              Some e \<Rightarrow> Inl e | None \<Rightarrow> Inr ())"
    and "fs (snd (save_model fw a c r s)) =
           snd (torch_save fw f1 (net c) (checkpoint_path a (client_idx c) r s))"
    and "calls (snd (save_model fw a c r s)) =
           calls c @ [OsMkdir (save_model_folder_path a),
                      TorchSave (checkpoint_path a (client_idx c) r s) (net c)]"
  using assms
  by (simp_all add: save_model_def Let_def call_os_mkdir_def call_torch_save_def
      get_nn_parameters_def checkpoint_path_def split: prod.splits option.splits)

lemma save_model_keeps:
  "net (snd (save_model fw a c r s)) = net c"
  "optimizer (snd (save_model fw a c r s)) = optimizer c"
  "scheduler (snd (save_model fw a c r s)) = scheduler c"
  "client_idx (snd (save_model fw a c r s)) = client_idx c"
  "train_data_loader (snd (save_model fw a c r s)) = train_data_loader c"
  "mu (snd (save_model fw a c r s)) = mu c"
  by (simp_all add: save_model_def Let_def call_os_mkdir_def call_torch_save_def
      split: sum.splits prod.splits option.splits)

text \<open>
  The calls of a \<^verbatim>\<open>save_model\<close> that returns, and a list that holds the calls of every
  \<^verbatim>\<open>save_model\<close>.
\<close>

lemma save_model_returns_calls:
  assumes "save_model fw a c r s = (Inr u, c')"
  shows "calls c' =
     calls c @
     (if os_path_exists fw (fs c) (save_model_folder_path a) then []
      else [OsMkdir (save_model_folder_path a)]) @
     [TorchSave (checkpoint_path a (client_idx c) r s) (net c)]"
proof (cases "os_path_exists fw (fs c) (save_model_folder_path a)")
  case True
  from save_model_when_exists(3) [OF True, where r = r and s = s] assms show ?thesis
    by (simp add: True)
next
  case False
  show ?thesis
  proof (cases "os_mkdir fw (fs c) (save_model_folder_path a)")
    case (Inl e)
    from save_model_mkdir_fails(1) [OF False Inl, where r = r and s = s] assms show ?thesis
      by simp
  next
    case (Inr f1)
    from save_model_mkdir_ok(3) [OF False Inr, where r = r and s = s] assms show ?thesis
      by (simp add: False)
  qed
qed


text \<open>
  \<^verbatim>\<open>save_model\<close> with its path named, and the paths of the concrete runs.
\<close>

lemma save_model_alt:
  "save_model fw a c epoch suffix =
     (case (if \<not> os_path_exists fw (fs c) (save_model_folder_path a)
            then call_os_mkdir fw
                   (c\<lparr>logger := logger c @
                      [DebugArgs ''Saving model to flat file storage. Save #{}'' [str_int epoch]]\<rparr>)
                   (save_model_folder_path a)
            else (Inr (), c\<lparr>logger := logger c @
                      [DebugArgs ''Saving model to flat file storage. Save #{}'' [str_int epoch]]\<rparr>)) of
        (Inl e, c2) \<Rightarrow> (Inl e, c2)
      | (Inr u, c2) \<Rightarrow>
          call_torch_save fw
            (c2\<lparr>logger := logger c2 @
                 [Debug (''Saving model to: '' @ checkpoint_path a (client_idx c2) epoch suffix)]\<rparr>)
            (net c2) (checkpoint_path a (client_idx c2) epoch suffix))"
  by (simp add: save_model_def Let_def checkpoint_path_def get_nn_parameters_def
      split: prod.splits sum.splits)

lemma example_checkpoint_path:
  "checkpoint_path example_arguments 7 3 s = ''models/model_7_3_'' @ s @ ''.model''"
  by (simp add: checkpoint_path_def example_arguments_def str_defs)

lemma example_str_3: "str_int 3 = ''3''"
  by (simp add: str_defs)

lemmas run_defs = save_model_alt call_os_mkdir_def call_torch_save_def seed_rngs_def
  example_checkpoint_path [unfolded example_arguments_def] example_str_3
  example_framework_def example_client_def example_arguments_def posix_defs

text \<open>
  C8, as the code has it. For every client, round \<open>r\<close> and suffix \<open>s\<close>, \<^verbatim>\<open>save_model\<close>
  computes the path \<^verbatim>\<open>os.path.join(save_model_dir, "model_<idx>_<r>_<s>.model")\<close>, which is
  \<^verbatim>\<open><save_model_dir>/model_<idx>_<r>_<s>.model\<close> for a directory name that is not empty and
  does not end in a separator. When \<^verbatim>\<open>os.path.exists\<close> reports the save directory,
  \<^verbatim>\<open>os.mkdir\<close> is not called. When it is reported absent, \<^verbatim>\<open>os.mkdir\<close> is called once on
  it; if that call raises, its error is the result, the file system is as it was and
  \<^verbatim>\<open>torch.save\<close> is not called. Otherwise \<^verbatim>\<open>torch.save\<close> is called once, with exactly the
  network's current parameter set and exactly that path; what it raises, if anything, is
  the result, and the file system is as it left it. The network, the optimizer and the
  scheduler are untouched, and neither of the latter is part of the value saved.
\<close>

theorem save_model_checkpoint:
  "checkpoint_path a (client_idx c) r s =
     os_path_join (save_model_folder_path a)
       (''model_'' @ str_int (client_idx c) @ ''_'' @ str_int r @ ''_'' @ s @ ''.model'') \<and>
   (save_model_folder_path a \<noteq> [] \<and> last (save_model_folder_path a) \<noteq> CHR ''/'' \<longrightarrow>
      checkpoint_path a (client_idx c) r s =
        save_model_folder_path a @ ''/model_'' @ str_int (client_idx c) @ ''_'' @ str_int r @
        ''_'' @ s @ ''.model'') \<and>
   (os_path_exists fw (fs c) (save_model_folder_path a) \<longrightarrow>
      calls (snd (save_model fw a c r s)) =
        calls c @ [TorchSave (checkpoint_path a (client_idx c) r s) (net c)] \<and>
      fst (save_model fw a c r s) =
        (case fst (torch_save fw (fs c) (net c) (checkpoint_path a (client_idx c) r s)) of
           Some e \<Rightarrow> Inl e | None \<Rightarrow> Inr ()) \<and>
      fs (snd (save_model fw a c r s)) =
        snd (torch_save fw (fs c) (net c) (checkpoint_path a (client_idx c) r s))) \<and>
   (\<not> os_path_exists fw (fs c) (save_model_folder_path a) \<longrightarrow>
      (\<forall>e. os_mkdir fw (fs c) (save_model_folder_path a) = Inl e \<longrightarrow>
         fst (save_model fw a c r s) = Inl e \<and>
         fs (snd (save_model fw a c r s)) = fs c \<and>
         calls (snd (save_model fw a c r s)) = calls c @ [OsMkdir (save_model_folder_path a)]) \<and>
      (\<forall>f1. os_mkdir fw (fs c) (save_model_folder_path a) = Inr f1 \<longrightarrow>
         calls (snd (save_model fw a c r s)) =
           calls c @ [OsMkdir (save_model_folder_path a),
                      TorchSave (checkpoint_path a (client_idx c) r s) (net c)] \<and>
         fst (save_model fw a c r s) =
           (case fst (torch_save fw f1 (net c) (checkpoint_path a (client_idx c) r s)) of
              Some e \<Rightarrow> Inl e | None \<Rightarrow> Inr ()) \<and>
         fs (snd (save_model fw a c r s)) =
           snd (torch_save fw f1 (net c) (checkpoint_path a (client_idx c) r s)))) \<and>
   net (snd (save_model fw a c r s)) = net c \<and>
   optimizer (snd (save_model fw a c r s)) = optimizer c \<and>
   scheduler (snd (save_model fw a c r s)) = scheduler c"
proof (intro conjI impI allI)
  show "checkpoint_path a (client_idx c) r s =
     os_path_join (save_model_folder_path a)
       (''model_'' @ str_int (client_idx c) @ ''_'' @ str_int r @ ''_'' @ s @ ''.model'')"
    by (simp add: checkpoint_path_def)
next
  assume "save_model_folder_path a \<noteq> [] \<and> last (save_model_folder_path a) \<noteq> CHR ''/''"
  then show "checkpoint_path a (client_idx c) r s =
        save_model_folder_path a @ ''/model_'' @ str_int (client_idx c) @ ''_'' @ str_int r @
        ''_'' @ s @ ''.model''"
    by (simp add: checkpoint_path_def os_path_join_def)
qed (simp_all add: save_model_when_exists save_model_mkdir_fails save_model_mkdir_ok
    save_model_keeps)

text \<open>
  The theorem at client 7, round 3 and suffix \<^verbatim>\<open>s\<close> in an empty working directory: with
  the save directory \<^verbatim>\<open>models\<close> the directory is created and the checkpoint written; with
  the save directory \<^verbatim>\<open>runs/models\<close> the call raises.
\<close>

theorem save_model_checkpoint_witness:
  "fst (save_model example_framework example_arguments example_client 3 ''s'') = Inr () \<and>
   calls (snd (save_model example_framework example_arguments example_client 3 ''s'')) =
     [OsMkdir ''models'', TorchSave ''models/model_7_3_s.model'' [(''w'', [1])]] \<and>
   fs (snd (save_model example_framework example_arguments example_client 3 ''s'')) =
     \<lparr>dirs = {''models''}, files = [''models/model_7_3_s.model'' \<mapsto> [(''w'', [1])]]\<rparr> \<and>
   fst (save_model example_framework (example_arguments\<lparr>save_model_folder_path := ''runs/models''\<rparr>)
          example_client 3 ''s'') = Inl FileNotFoundError"
proof -
  let ?fs1 = "\<lparr>dirs = {''models''}, files = Map.empty\<rparr>"
  let ?P = "checkpoint_path example_arguments (client_idx example_client) 3 ''s''"
  have P: "?P = ''models/model_7_3_s.model''"
    by (simp add: checkpoint_path_def ex_defs str_defs)
  have absent: "\<not> os_path_exists example_framework (fs example_client)
                   (save_model_folder_path example_arguments)"
    by (simp add: ex_defs posix_defs)
  have mk: "os_mkdir example_framework (fs example_client)
              (save_model_folder_path example_arguments) = Inr ?fs1"
    by (simp add: ex_defs posix_defs)
  have wr: "torch_save example_framework ?fs1 (net example_client) ''models/model_7_3_s.model'' =
              (None, \<lparr>dirs = {''models''}, files = [''models/model_7_3_s.model'' \<mapsto> [(''w'', [1])]]\<rparr>)"
    by (simp add: ex_defs posix_defs)
  note T = save_model_checkpoint [where a = example_arguments and c = example_client
      and fw = example_framework and r = 3 and s = "''s''"]
  from T absent mk have ok:
    "calls (snd (save_model example_framework example_arguments example_client 3 ''s'')) =
       calls example_client @ [OsMkdir (save_model_folder_path example_arguments),
                  TorchSave ?P (net example_client)] \<and>
     fst (save_model example_framework example_arguments example_client 3 ''s'') =
       (case fst (torch_save example_framework ?fs1 (net example_client) ?P) of
          Some e \<Rightarrow> Inl e | None \<Rightarrow> Inr ()) \<and>
     fs (snd (save_model example_framework example_arguments example_client 3 ''s'')) =
       snd (torch_save example_framework ?fs1 (net example_client) ?P)"
    by blast
  let ?a2 = "example_arguments\<lparr>save_model_folder_path := ''runs/models''\<rparr>"
  have absent2: "\<not> os_path_exists example_framework (fs example_client) (save_model_folder_path ?a2)"
    by (simp add: ex_defs posix_defs)
  have mk2: "os_mkdir example_framework (fs example_client) (save_model_folder_path ?a2) =
               Inl FileNotFoundError"
    by (simp add: ex_defs posix_defs)
  from save_model_checkpoint [where a = ?a2 and c = example_client
      and fw = example_framework and r = 3 and s = "''s''"] absent2 mk2
  have fail: "fst (save_model example_framework ?a2 example_client 3 ''s'') = Inl FileNotFoundError"
    by blast
  have c0: "calls example_client = []" "net example_client = [(''w'', [1])]"
    "save_model_folder_path example_arguments = ''models''"
    by (simp_all add: ex_defs)
  from ok fail show ?thesis
    unfolding P wr by (simp add: c0)
qed

text \<open>
  C8 as stated fails: with the save directory \<^verbatim>\<open>runs/models\<close> in a working directory
  without \<^verbatim>\<open>runs\<close>, the directory is absent, \<^verbatim>\<open>os.mkdir\<close> (which creates one level
  only) raises \<^verbatim>\<open>FileNotFoundError\<close>, no directory is created and no checkpoint is
  written.
\<close>

theorem save_model_counterexample:
  "\<not> os_path_exists example_framework (fs example_client) ''runs/models'' \<and>
   fst (save_model example_framework (example_arguments\<lparr>save_model_folder_path := ''runs/models''\<rparr>)
          example_client 3 ''s'') = Inl FileNotFoundError \<and>
   fs (snd (save_model example_framework (example_arguments\<lparr>save_model_folder_path := ''runs/models''\<rparr>)
          example_client 3 ''s'')) = \<lparr>dirs = {}, files = Map.empty\<rparr> \<and>
   calls (snd (save_model example_framework (example_arguments\<lparr>save_model_folder_path := ''runs/models''\<rparr>)
          example_client 3 ''s'')) = [OsMkdir ''runs/models'']"
  by (simp add: save_model_def call_os_mkdir_def Let_def ex_defs posix_defs)

section \<open>Properties of \<^verbatim>\<open>train\<close>\<close>



text \<open>
  How often a run of \<^verbatim>\<open>train\<close> that returns saves the start-suffix checkpoint: once for
  every epoch, so \<open>epochs\<close> times, given that the two suffixes differ.
\<close>

lemma saves_to_append: "saves_to p (xs @ ys) = saves_to p xs + saves_to p ys"
  by (simp add: saves_to_def)

lemma saves_to_simps [simp]:
  "saves_to p [] = 0"
  "saves_to p (TorchSave q sd # cs) = (if q = p then 1 else 0) + saves_to p cs"
  "saves_to p (OsMkdir d # cs) = saves_to p cs"
  "saves_to p (OptimizerStep # cs) = saves_to p cs"
  "saves_to p (SchedulerStep # cs) = saves_to p cs"
  by (simp_all add: saves_to_def)

lemma train_batches_keeps:
  "train_batches fw a ty sm rnd epoch epochs i bs c rl = (r, c') \<Longrightarrow>
   client_idx c' = client_idx c \<and> saves_to p (calls c') = saves_to p (calls c)"
proof (induction fw a ty sm rnd epoch epochs i bs c rl rule: train_batches.induct)
  case (1 fw a ty sm rnd epoch epochs i c rl)
  then show ?case by simp
next
  case (2 fw a ty sm rnd epoch epochs i b rest c rl)
  show ?case
    using "2.prems" "2.IH"
    by (auto simp: saves_to_append split: prod.splits sum.splits if_splits)
qed

lemma checkpoint_path_suffix:
  "checkpoint_path a idx r s = checkpoint_path a idx r s' \<longleftrightarrow> s = s'"
  by (auto simp: checkpoint_path_def os_path_join_def)

lemma save_model_saves:
  assumes "save_model fw a c r s = (Inr u, c')"
  shows "saves_to p (calls c') =
     saves_to p (calls c) + (if checkpoint_path a (client_idx c) r s = p then 1 else 0)"
    and "client_idx c' = client_idx c"
    and "train_data_loader c' = train_data_loader c"
proof -
  show "saves_to p (calls c') =
     saves_to p (calls c) + (if checkpoint_path a (client_idx c) r s = p then 1 else 0)"
    by (simp add: save_model_returns_calls [OF assms] saves_to_append)
  from save_model_keeps(4) [of fw a c r s] assms show "client_idx c' = client_idx c"
    by simp
  from save_model_keeps(5) [of fw a c r s] assms show "train_data_loader c' = train_data_loader c"
    by simp
qed

lemma train_epochs_start_saves:
  "train_epochs fw a ty sm rnd epochs es c rl = (Inr r, c') \<Longrightarrow>
   client_idx c' = client_idx c \<and>
   saves_to (checkpoint_path a (client_idx c) rnd (cr_save_start_suffix a)) (calls c') =
     saves_to (checkpoint_path a (client_idx c) rnd (cr_save_start_suffix a)) (calls c) + length es"
proof (induction es arbitrary: c rl)
  case Nil
  then show ?case by simp
next
  case (Cons epoch later)
  let ?p = "checkpoint_path a (client_idx c) rnd (cr_save_start_suffix a)"
  obtain r0 c1 where sm: "save_model fw a (c\<lparr>net_training := True\<rparr>) rnd (cr_save_start_suffix a) = (r0, c1)"
    by (cases "save_model fw a (c\<lparr>net_training := True\<rparr>) rnd (cr_save_start_suffix a)")
  from Cons.prems sm obtain u where r0: "r0 = Inr u"
    by (cases r0) simp_all
  note sm' = sm [unfolded r0]
  from save_model_saves(1) [OF sm', where p = ?p] save_model_saves(2) [OF sm']
  have k1: "saves_to ?p (calls c1) = saves_to ?p (calls c) + 1" "client_idx c1 = client_idx c"
    by simp_all
  obtain r1 c2 where tb: "train_batches fw a ty sm rnd epoch epochs 0 (train_data_loader c1) c1 0 = (r1, c2)"
    by (cases "train_batches fw a ty sm rnd epoch epochs 0 (train_data_loader c1) c1 0")
  from train_batches_keeps [OF tb, where p = ?p] k1
  have k: "client_idx c2 = client_idx c" "saves_to ?p (calls c2) = saves_to ?p (calls c) + 1"
    by simp_all
  from Cons.prems sm' tb obtain l where r1: "r1 = Inr l"
    by (cases r1) simp_all
  obtain sched' opt' where ss: "scheduler_step fw (scheduler c2) (optimizer c2) = (sched', opt')"
    by (cases "scheduler_step fw (scheduler c2) (optimizer c2)")
  let ?c3 = "c2\<lparr>scheduler := sched', optimizer := opt', calls := calls c2 @ [SchedulerStep]\<rparr>"
  from Cons.prems sm' tb r1 ss
  have rest: "train_epochs fw a ty sm rnd epochs later ?c3 (Some l) = (Inr r, c')"
    by simp
  from Cons.IH [OF rest] k show ?case
    by (simp add: saves_to_append)
qed

lemma train_start_saves:
  assumes "train fw a c rnd epochs ty seed = (Inr l, c')"
    and "cr_save_start_suffix a \<noteq> cr_save_end_suffix a"
  shows "saves_to (checkpoint_path a (client_idx c) rnd (cr_save_start_suffix a)) (calls c') =
     saves_to (checkpoint_path a (client_idx c) rnd (cr_save_start_suffix a)) (calls c) + nat epochs"
proof -
  let ?p = "checkpoint_path a (client_idx c) rnd (cr_save_start_suffix a)"
  let ?c0 = "seed_rngs seed c"
  obtain r1 c1 where te: "train_epochs fw a ty (get_nn_parameters ?c0) rnd epochs [0..<nat epochs] ?c0 None = (r1, c1)"
    by (cases "train_epochs fw a ty (get_nn_parameters ?c0) rnd epochs [0..<nat epochs] ?c0 None")
  from assms(1) te obtain rl where r1: "r1 = Inr rl"
    by (cases r1) (simp_all add: train_def Let_def)
  obtain r2 c2 where sm: "save_model fw a c1 rnd (cr_save_end_suffix a) = (r2, c2)"
    by (cases "save_model fw a c1 rnd (cr_save_end_suffix a)")
  from assms(1) te r1 sm obtain u where r2: "r2 = Inr u"
    by (cases r2) (simp_all add: train_def Let_def)
  from assms(1) te r1 sm r2 have c': "c' = c2"
    by (auto simp: train_def Let_def split: option.splits)
  from train_epochs_start_saves [OF te [unfolded r1]]
  have k: "client_idx c1 = client_idx c" "saves_to ?p (calls c1) = saves_to ?p (calls c) + nat epochs"
    by simp_all
  from save_model_saves(1) [OF sm [unfolded r2], where p = ?p]
  show ?thesis
    using assms(2) by (simp add: c' k checkpoint_path_suffix)
qed

text \<open>
  C3. The start-suffix checkpoint is written at the head of every epoch, not once per
  round: with \<open>epochs = 2\<close> the run below saves \<^verbatim>\<open>models/model_7_3_s.model\<close> twice, the
  second time after the optimizer step of the first epoch, so the file ends up holding
  the parameters after one epoch (\<open>w = 2\<close>) and not those of the round's start
  (\<open>w = 1\<close>).
\<close>

theorem train_two_epochs_saves_start_twice:
  "fst (train example_framework example_arguments example_client 3 2 ''fed_avg'' (Some 40)) = Inr 0 \<and>
   calls (snd (train example_framework example_arguments example_client 3 2 ''fed_avg'' (Some 40)))
     = [OsMkdir ''models'',
        TorchSave ''models/model_7_3_s.model'' [(''w'', [1])], OptimizerStep, SchedulerStep,
        TorchSave ''models/model_7_3_s.model'' [(''w'', [2])], OptimizerStep, SchedulerStep,
        TorchSave ''models/model_7_3_e.model'' [(''w'', [3])]] \<and>
   files (fs (snd (train example_framework example_arguments example_client 3 2 ''fed_avg'' (Some 40))))
      ''models/model_7_3_s.model'' = Some [(''w'', [2])]"
  by (simp add: train_def Let_def get_nn_parameters_def get_mu_def add_proximal_term_def
      run_defs upt_0_2)

section \<open>Properties of \<^verbatim>\<open>test\<close>\<close>

lemma test_batches_total:
  "fst (test_batches fw params bs (t, acc)) = t + int (sum_list (map length bs))"
proof (induction bs arbitrary: t acc)
  case Nil
  then show ?case by simp
next
  case (Cons b bs)
  obtain cr ts ps l where acc: "acc = (cr, ts, ps, l)"
    by (cases acc) auto
  show ?case
    unfolding acc by (simp add: Let_def Cons.IH)
qed

lemma sum_list_all_empty:
  "list_all (\<lambda>b. b = []) bs \<Longrightarrow> sum_list (map length bs) = 0"
  by (induction bs) simp_all

text \<open>
  C9. When the test data source yields no sample (no batch, or only empty batches),
  \<^verbatim>\<open>test\<close> raises \<^verbatim>\<open>ZeroDivisionError\<close> at \<^verbatim>\<open>100 * correct / total\<close> and returns no
  values.
\<close>

theorem test_no_samples:
  "list_all (\<lambda>b. b = []) (test_data_loader c) \<longrightarrow>
     fst (test fw c do_log) = Inl ZeroDivisionError"
proof
  assume e: "list_all (\<lambda>b. b = []) (test_data_loader c)"
  obtain t cr ts ps l where
    r: "test_batches fw (net c) (test_data_loader c) (0, 0, [], [], 0) = (t, cr, ts, ps, l)"
    by (metis prod_cases5)
  have "t = fst (test_batches fw (net c) (test_data_loader c) (0, 0, [], [], 0))"
    by (simp add: r)
  also have "\<dots> = 0"
    by (simp add: test_batches_total sum_list_all_empty [OF e])
  finally have "t = 0" .
  then show "fst (test fw c do_log) = Inl ZeroDivisionError"
    by (simp add: test_def Let_def r)
qed

text \<open>
  The theorem for a test data source of two empty batches.
\<close>

theorem test_no_samples_witness:
  "list_all (\<lambda>b. b = []) (test_data_loader (example_client\<lparr>test_data_loader := [[], []]\<rparr>)) \<and>
   fst (test example_framework (example_client\<lparr>test_data_loader := [[], []]\<rparr>) False)
     = Inl ZeroDivisionError"
  using test_no_samples [of "example_client\<lparr>test_data_loader := [[], []]\<rparr>" example_framework False]
  by simp

section \<open>Properties of \<^verbatim>\<open>load_model_from_file\<close>\<close>

lemma load_attempts_append:
  "load_attempts ml (xs @ ys) = load_attempts ml xs + load_attempts ml ys"
  by (simp add: load_attempts_def)

lemma attempt_load_calls:
  "attempt_load fw c m p ml = (r, m', c') \<Longrightarrow>
   load_attempts ml' (calls c') = load_attempts ml' (calls c) + (if ml = ml' then 1 else 0)"
  by (auto simp: attempt_load_def load_attempts_append load_attempts_def
      split: sum.splits prod.splits)

text \<open>
  C7. If the file does not exist, the result is the freshly constructed network, one
  warning is logged and nothing is raised. If it exists and the first attempt succeeds,
  no attempt mapped to the CPU is made. If the first attempt fails, exactly one attempt
  mapped to the CPU is made; when that attempt fails its error is the result of the call,
  and when it succeeds the loaded network is.
\<close>

theorem load_model_from_file_cases:
  "(\<not> os_path_exists fw (fs c) p \<longrightarrow>
      load_model_from_file fw c p =
        (Inr (model_class fw), c\<lparr>logger := logger c @ [Warning (''Could not find model: '' @ p)]\<rparr>)) \<and>
   (os_path_exists fw (fs c) p \<longrightarrow>
      (\<forall>m1 c1. attempt_load fw c (model_class fw) p None = (None, m1, c1) \<longrightarrow>
         load_model_from_file fw c p = (Inr m1, c1) \<and>
         load_attempts (Some ''cpu'') (calls c1) = load_attempts (Some ''cpu'') (calls c)) \<and>
      (\<forall>e1 m1 c1. attempt_load fw c (model_class fw) p None = (Some e1, m1, c1) \<longrightarrow>
         load_attempts (Some ''cpu'') (calls (snd (load_model_from_file fw c p))) =
           load_attempts (Some ''cpu'') (calls c) + 1 \<and>
         (\<forall>e2 m2 c3.
            attempt_load fw (c1\<lparr>logger := logger c1 @ [cpu_warning]\<rparr>) m1 p (Some ''cpu'') =
              (Some e2, m2, c3) \<longrightarrow>
            load_model_from_file fw c p = (Inl e2, c3)) \<and>
         (\<forall>m2 c3.
            attempt_load fw (c1\<lparr>logger := logger c1 @ [cpu_warning]\<rparr>) m1 p (Some ''cpu'') =
              (None, m2, c3) \<longrightarrow>
            load_model_from_file fw c p = (Inr m2, c3))))"
proof (intro conjI impI allI)
  assume "\<not> os_path_exists fw (fs c) p"
  then show "load_model_from_file fw c p =
        (Inr (model_class fw), c\<lparr>logger := logger c @ [Warning (''Could not find model: '' @ p)]\<rparr>)"
    by (simp add: load_model_from_file_def)
next
  fix m1 c1
  assume "os_path_exists fw (fs c) p" "attempt_load fw c (model_class fw) p None = (None, m1, c1)"
  then show "load_model_from_file fw c p = (Inr m1, c1)"
    by (simp add: load_model_from_file_def)
next
  fix m1 c1
  assume "os_path_exists fw (fs c) p" and a: "attempt_load fw c (model_class fw) p None = (None, m1, c1)"
  from attempt_load_calls [OF a, of "Some ''cpu''"]
  show "load_attempts (Some ''cpu'') (calls c1) = load_attempts (Some ''cpu'') (calls c)"
    by simp
next
  fix e1 m1 c1
  assume ex: "os_path_exists fw (fs c) p"
    and a: "attempt_load fw c (model_class fw) p None = (Some e1, m1, c1)"
  obtain r m2 c3 where
    b: "attempt_load fw (c1\<lparr>logger := logger c1 @ [cpu_warning]\<rparr>) m1 p (Some ''cpu'') = (r, m2, c3)"
    by (metis prod_cases3)
  have res: "snd (load_model_from_file fw c p) = c3"
    using ex a b by (cases r) (simp_all add: load_model_from_file_def cpu_warning_def)
  from attempt_load_calls [OF a, of "Some ''cpu''"] attempt_load_calls [OF b, of "Some ''cpu''"]
  show "load_attempts (Some ''cpu'') (calls (snd (load_model_from_file fw c p))) =
           load_attempts (Some ''cpu'') (calls c) + 1"
    by (simp add: res)
next
  fix e1 m1 c1 e2 m2 c3
  assume "os_path_exists fw (fs c) p" "attempt_load fw c (model_class fw) p None = (Some e1, m1, c1)"
    "attempt_load fw (c1\<lparr>logger := logger c1 @ [cpu_warning]\<rparr>) m1 p (Some ''cpu'') = (Some e2, m2, c3)"
  then show "load_model_from_file fw c p = (Inl e2, c3)"
    by (simp add: load_model_from_file_def cpu_warning_def)
next
  fix e1 m1 c1 m2 c3
  assume "os_path_exists fw (fs c) p" "attempt_load fw c (model_class fw) p None = (Some e1, m1, c1)"
    "attempt_load fw (c1\<lparr>logger := logger c1 @ [cpu_warning]\<rparr>) m1 p (Some ''cpu'') = (None, m2, c3)"
  then show "load_model_from_file fw c p = (Inr m2, c3)"
    by (simp add: load_model_from_file_def cpu_warning_def)
qed

text \<open>
  The theorem on three file systems: without the file; with a file that loads only when
  mapped to the CPU; with a file that never loads.
\<close>

theorem load_model_from_file_cases_witness:
  "load_model_from_file example_framework example_client ''default.model'' =
     (Inr [(''w'', [0])],
      example_client\<lparr>logger := [Warning ''Could not find model: default.model'']\<rparr>) \<and>
   fst (load_model_from_file example_framework
          (example_client\<lparr>fs := \<lparr>dirs = {}, files = [''default.model'' \<mapsto> [(''w'', [5])]]\<rparr>\<rparr>) ''default.model'')
     = Inr [(''w'', [5])] \<and>
   load_attempts (Some ''cpu'') (calls (snd (load_model_from_file example_framework
          (example_client\<lparr>fs := \<lparr>dirs = {}, files = [''default.model'' \<mapsto> [(''w'', [5])]]\<rparr>\<rparr>) ''default.model'')))
     = 1 \<and>
   fst (load_model_from_file example_framework
          (example_client\<lparr>fs := \<lparr>dirs = {}, files = [''default.model'' \<mapsto> []]\<rparr>\<rparr>) ''default.model'')
     = Inl (RuntimeError ''invalid load key'')"
proof -
  let ?p = "''default.model''"
  let ?good = "example_client\<lparr>fs := \<lparr>dirs = {}, files = [?p \<mapsto> [(''w'', [5])]]\<rparr>\<rparr>"
  let ?bad = "example_client\<lparr>fs := \<lparr>dirs = {}, files = [?p \<mapsto> []]\<rparr>\<rparr>"
  have "\<not> os_path_exists example_framework (fs example_client) ?p"
    by (simp add: ex_defs posix_defs)
  with load_model_from_file_cases [where c = example_client and p = ?p and fw = example_framework]
  have "load_model_from_file example_framework example_client ?p =
     (Inr (model_class example_framework),
      example_client\<lparr>logger := logger example_client @ [Warning (''Could not find model: '' @ ?p)]\<rparr>)"
    by blast
  then have a: "load_model_from_file example_framework example_client ?p =
     (Inr [(''w'', [0])], example_client\<lparr>logger := [Warning ''Could not find model: default.model'']\<rparr>)"
    by (simp add: example_framework_def example_client_def)
  have ex_good: "os_path_exists example_framework (fs ?good) ?p"
    by (simp add: ex_defs posix_defs)
  have first_good: "attempt_load example_framework ?good (model_class example_framework) ?p None =
      (Some (RuntimeError ''Attempting to deserialize object on a CUDA device''), [(''w'', [0])],
       ?good\<lparr>calls := calls ?good @ [TorchLoad ?p None]\<rparr>)"
    by (simp add: attempt_load_def example_framework_def)
  have retry_good: "attempt_load example_framework
        (?good\<lparr>calls := calls ?good @ [TorchLoad ?p None],
               logger := logger (?good\<lparr>calls := calls ?good @ [TorchLoad ?p None]\<rparr>) @ [cpu_warning]\<rparr>)
        [(''w'', [0])] ?p (Some ''cpu'') =
      (None, [(''w'', [5])],
       ?good\<lparr>calls := calls ?good @ [TorchLoad ?p None],
               logger := logger (?good\<lparr>calls := calls ?good @ [TorchLoad ?p None]\<rparr>) @ [cpu_warning],
               calls := calls ?good @ [TorchLoad ?p None] @ [TorchLoad ?p (Some ''cpu''), LoadStateDict]\<rparr>)"
    by (simp add: attempt_load_def example_framework_def)
  from load_model_from_file_cases [where c = ?good and p = ?p and fw = example_framework] ex_good first_good
  have g1: "load_attempts (Some ''cpu'') (calls (snd (load_model_from_file example_framework ?good ?p))) =
           load_attempts (Some ''cpu'') (calls ?good) + 1"
    by blast
  from load_model_from_file_cases [where c = ?good and p = ?p and fw = example_framework] ex_good first_good retry_good
  have g2: "fst (load_model_from_file example_framework ?good ?p) = Inr [(''w'', [5])]"
    by (metis fst_conv)
  have ex_bad: "os_path_exists example_framework (fs ?bad) ?p"
    by (simp add: ex_defs posix_defs)
  have first_bad: "attempt_load example_framework ?bad (model_class example_framework) ?p None =
      (Some (RuntimeError ''invalid load key''), [(''w'', [0])],
       ?bad\<lparr>calls := calls ?bad @ [TorchLoad ?p None]\<rparr>)"
    by (simp add: attempt_load_def example_framework_def)
  have retry_bad: "attempt_load example_framework
        (?bad\<lparr>calls := calls ?bad @ [TorchLoad ?p None],
              logger := logger (?bad\<lparr>calls := calls ?bad @ [TorchLoad ?p None]\<rparr>) @ [cpu_warning]\<rparr>)
        [(''w'', [0])] ?p (Some ''cpu'') =
      (Some (RuntimeError ''invalid load key''), [(''w'', [0])],
       ?bad\<lparr>calls := calls ?bad @ [TorchLoad ?p None],
              logger := logger (?bad\<lparr>calls := calls ?bad @ [TorchLoad ?p None]\<rparr>) @ [cpu_warning],
              calls := calls ?bad @ [TorchLoad ?p None] @ [TorchLoad ?p (Some ''cpu'')]\<rparr>)"
    by (simp add: attempt_load_def example_framework_def)
  from load_model_from_file_cases [where c = ?bad and p = ?p and fw = example_framework] ex_bad first_bad retry_bad
  have b1: "fst (load_model_from_file example_framework ?bad ?p) = Inl (RuntimeError ''invalid load key'')"
    by (metis fst_conv)
  have "load_attempts (Some ''cpu'') (calls ?good) = 0"
    by (simp add: load_attempts_def example_client_def)
  with a g1 g2 b1 show ?thesis by simp
qed

section \<open>Properties of \<^verbatim>\<open>diff_squared_sum\<close> and of the proximal term\<close>

lemma sq_sum_map2:
  assumes "length a = length b"
  shows "sum_list (map (\<lambda>x. x\<^sup>2) (map2 (-) a b)) = sq_dist a (b::real list)"
proof -
  have "sum_list (map (\<lambda>x. x\<^sup>2) (map2 (-) a b)) =
          (\<Sum>i = 0..<length a. map (\<lambda>x. x\<^sup>2) (map2 (-) a b) ! i)"
    using assms by (simp add: sum_list_sum_nth)
  also have "\<dots> = (\<Sum>i = 0..<length a. (a ! i - b ! i)\<^sup>2)"
    using assms by (intro sum.cong) simp_all
  finally show ?thesis
    by (simp add: sq_dist_def lessThan_atLeast0)
qed

lemma dss_loop_sum:
  assumes "distinct (map fst items)" and "same_shapes params1 items"
  shows "dss_loop params1 items acc =
           Inr (acc + (\<Sum>n \<in> set (map fst items) \<inter> dom (map_of params1).
                  sq_dist (the (map_of params1 n)) (the (map_of items n))))"
  using assms
proof (induction items arbitrary: acc)
  case Nil
  then show ?case by simp
next
  case (Cons item rest)
  obtain n p2 where item: "item = (n, p2)"
    by (cases item) auto
  let ?R = "set (map fst rest) \<inter> dom (map_of params1)"
  let ?f = "\<lambda>m. sq_dist (the (map_of params1 m)) (the (map_of rest m))"
  let ?g = "\<lambda>m. sq_dist (the (map_of params1 m)) (the (map_of (item # rest) m))"
  from Cons.prems have dist: "distinct (map fst rest)" and fresh: "n \<notin> set (map fst rest)"
    and shapes: "same_shapes params1 rest"
    by (simp_all add: item same_shapes_def)
  have same: "sum ?g ?R = sum ?f ?R"
    using fresh by (intro sum.cong refl) (auto simp: item)
  have ih: "\<And>acc'. dss_loop params1 rest acc' = Inr (acc' + sum ?f ?R)"
    by (rule Cons.IH [OF dist shapes])
  show ?case
  proof (cases "map_of params1 n")
    case None
    then have "set (map fst (item # rest)) \<inter> dom (map_of params1) = ?R"
      by (auto simp: item)
    with None same show ?thesis
      by (simp add: item ih)
  next
    case (Some p1)
    from Cons.prems(2) Some have len: "length p1 = length p2"
      by (simp add: item same_shapes_def)
    have set_eq: "set (map fst (item # rest)) \<inter> dom (map_of params1) = insert n ?R"
      using Some by (auto simp: item)
    have "n \<notin> ?R"
      using fresh by simp
    then have "sum ?g (insert n ?R) = ?g n + sum ?g ?R"
      by (simp add: sum.insert)
    also have "?g n = sq_dist p1 p2"
      by (simp add: item Some)
    finally have "sum ?g (insert n ?R) = sq_dist p1 p2 + sum ?g ?R" .
    then have total: "sum ?g (insert n ?R) = sq_dist p1 p2 + sum ?f ?R"
      by (simp only: same)
    have "dss_loop params1 (item # rest) acc =
            dss_loop params1 rest (acc + sq_dist p1 p2)"
      using sq_sum_map2 [OF len] by (simp add: item Some tensor_sub_def len)
    also have "\<dots> = Inr (acc + sq_dist p1 p2 + sum ?f ?R)"
      by (rule ih)
    finally show ?thesis
      by (simp only: set_eq total add.assoc)
  qed
qed

lemma dss_loop_no_value_error:
  "dss_loop params1 items acc \<noteq> Inl (ValueError msg)"
proof (induction items arbitrary: acc)
  case Nil
  then show ?case by simp
next
  case (Cons item rest)
  obtain n p2 where item: "item = (n, p2)"
    by (cases item) auto
  show ?case
    by (auto simp: item tensor_sub_def Cons.IH split: option.splits sum.splits if_splits)
qed

lemma keys_dom: "set (map fst xs) \<inter> set (map fst ps) = set (map fst xs) \<inter> dom (map_of ps)"
  by (simp add: dom_map_of_conv_image_fst)

lemma diff_squared_sum_items:
  assumes "model2 = NNModule items \<or> model2 = OrderedDict items"
    and "distinct (map fst items)" and "same_shapes (net c) items"
  shows "diff_squared_sum c model2 =
     Inr (\<Sum>n \<in> set (map fst items) \<inter> set (map fst (net c)).
            \<Sum>i<length (the (map_of (net c) n)).
              (the (map_of (net c) n) ! i - the (map_of items n) ! i)\<^sup>2)"
proof -
  have "diff_squared_sum c model2 = dss_loop (net c) items 0"
    using assms(1) by (auto simp: diff_squared_sum_def get_nn_parameters_def)
  also have "\<dots> = Inr (0 + (\<Sum>n \<in> set (map fst items) \<inter> dom (map_of (net c)).
                  sq_dist (the (map_of (net c) n)) (the (map_of items n))))"
    by (rule dss_loop_sum [OF assms(2,3)])
  finally show ?thesis
    by (simp only: keys_dom sq_dist_def add_0)
qed

text \<open>
  C6, as the code has it. \<^verbatim>\<open>diff_squared_sum\<close> raises \<^verbatim>\<open>ValueError\<close> exactly when its
  argument is neither an \<^verbatim>\<open>nn.Module\<close> nor an \<^verbatim>\<open>OrderedDict\<close>; for a module or an
  \<^verbatim>\<open>OrderedDict\<close> whose tensors are of the size of the client's tensors of the same name
  it returns the sum, over the names shared with the client's parameter set, of the
  squared elementwise differences.
\<close>

theorem diff_squared_sum_cases:
  "((\<exists>msg. diff_squared_sum c model2 = Inl (ValueError msg)) \<longleftrightarrow>
      (\<forall>items. model2 \<noteq> NNModule items \<and> model2 \<noteq> OrderedDict items)) \<and>
   (\<forall>items. (model2 = NNModule items \<or> model2 = OrderedDict items) \<and>
        distinct (map fst items) \<and> same_shapes (net c) items \<longrightarrow>
      diff_squared_sum c model2 =
        Inr (\<Sum>n \<in> set (map fst items) \<inter> set (map fst (net c)).
               \<Sum>i<length (the (map_of (net c) n)).
                 (the (map_of (net c) n) ! i - the (map_of items n) ! i)\<^sup>2))"
proof (intro conjI allI impI)
  show "(\<exists>msg. diff_squared_sum c model2 = Inl (ValueError msg)) \<longleftrightarrow>
      (\<forall>items. model2 \<noteq> NNModule items \<and> model2 \<noteq> OrderedDict items)"
    by (cases model2)
      (simp_all add: diff_squared_sum_def get_nn_parameters_def dss_loop_no_value_error)
next
  fix items
  assume "(model2 = NNModule items \<or> model2 = OrderedDict items) \<and>
        distinct (map fst items) \<and> same_shapes (net c) items"
  then show "diff_squared_sum c model2 =
        Inr (\<Sum>n \<in> set (map fst items) \<inter> set (map fst (net c)).
               \<Sum>i<length (the (map_of (net c) n)).
                 (the (map_of (net c) n) ! i - the (map_of items n) ! i)\<^sup>2)"
    by (intro diff_squared_sum_items) simp_all
qed

text \<open>
  The theorem at an \<^verbatim>\<open>OrderedDict\<close> with one shared and one foreign name, and at an
  argument of another type.
\<close>

theorem diff_squared_sum_cases_witness:
  "diff_squared_sum (example_client\<lparr>net := [(''w'', [5])]\<rparr>)
      (OrderedDict [(''w'', [3]), (''b'', [0])]) = Inr 4 \<and>
   diff_squared_sum example_client NoneObject =
      Inl (ValueError ''Unsupported model type. Model must be a PyTorch model or an OrderedDict.'')"
proof -
  let ?c = "example_client\<lparr>net := [(''w'', [5])]\<rparr>"
  let ?items = "[(''w'', [3::real]), (''b'', [0])]"
  note inst = diff_squared_sum_cases [of ?c "OrderedDict ?items"]
  have h: "(OrderedDict ?items = NNModule ?items \<or> OrderedDict ?items = OrderedDict ?items) \<and>
        distinct (map fst ?items) \<and> same_shapes (net ?c) ?items"
    by (simp add: same_shapes_def)
  from inst have "\<forall>items. (OrderedDict ?items = NNModule items \<or> OrderedDict ?items = OrderedDict items) \<and>
        distinct (map fst items) \<and> same_shapes (net ?c) items \<longrightarrow>
      diff_squared_sum ?c (OrderedDict ?items) =
        Inr (\<Sum>n \<in> set (map fst items) \<inter> set (map fst (net ?c)).
               \<Sum>i<length (the (map_of (net ?c) n)).
                 (the (map_of (net ?c) n) ! i - the (map_of items n) ! i)\<^sup>2)"
    by (rule conjunct2)
  then have "diff_squared_sum ?c (OrderedDict ?items) =
        Inr (\<Sum>n \<in> set (map fst ?items) \<inter> set (map fst (net ?c)).
               \<Sum>i<length (the (map_of (net ?c) n)).
                 (the (map_of (net ?c) n) ! i - the (map_of ?items n) ! i)\<^sup>2)"
    using h by blast
  then have a: "diff_squared_sum ?c (OrderedDict ?items) = Inr 4"
    by simp
  have b: "diff_squared_sum example_client NoneObject =
      Inl (ValueError ''Unsupported model type. Model must be a PyTorch model or an OrderedDict.'')"
    by (simp add: diff_squared_sum_def)
  from a b show ?thesis by simp
qed

text \<open>
  C6 as stated fails: a plain \<^verbatim>\<open>dict\<close> from names to tensors is rejected with the
  \<^verbatim>\<open>ValueError\<close>, and an \<^verbatim>\<open>OrderedDict\<close> whose tensor is of another size than the
  client's raises the framework's size-mismatch error.
\<close>

theorem diff_squared_sum_counterexample:
  "diff_squared_sum example_client (PlainDict [(''w'', [1])]) =
      Inl (ValueError ''Unsupported model type. Model must be a PyTorch model or an OrderedDict.'') \<and>
   diff_squared_sum (example_client\<lparr>net := [(''w'', [1, 2])]\<rparr>) (OrderedDict [(''w'', [1, 2, 3])]) =
      Inl (RuntimeError ''The size of tensor a must match the size of tensor b'')"
  by (simp add: diff_squared_sum_def get_nn_parameters_def tensor_sub_def)

text \<open>
  C2. For the objectives \<^verbatim>\<open>fed_prox\<close> and \<^verbatim>\<open>fed_greedy\<close> the loss after lines 212
  to 214 is the primary loss plus \<open>mu / 2\<close> times the sum, over the names in both the
  round-start snapshot and the current parameter set, of the squared elementwise
  differences; for any other objective the loss is the primary loss; for a network of one
  scalar parameter and \<open>mu = 2\<close> the added term is \<open>(w - w0)\<^sup>2\<close>; and a batch of
  \<^verbatim>\<open>train\<close> that does not log adds exactly that loss to the running loss.
\<close>

theorem proximal_term_added:
  "(ty \<in> {''fed_prox'', ''fed_greedy''} \<and> distinct (map fst server_model) \<and>
    same_shapes (net c) server_model \<longrightarrow>
      add_proximal_term ty c server_model loss =
        Inr (loss + (mu c / 2) *
          (\<Sum>n \<in> set (map fst server_model) \<inter> set (map fst (net c)).
             \<Sum>i<length (the (map_of (net c) n)).
               (the (map_of (net c) n) ! i - the (map_of server_model n) ! i)\<^sup>2))) \<and>
   (ty \<notin> {''fed_prox'', ''fed_greedy''} \<longrightarrow> add_proximal_term ty c server_model loss = Inr loss) \<and>
   (ty \<in> {''fed_prox'', ''fed_greedy''} \<and> net c = [(name, [w])] \<and> server_model = [(name, [w0])] \<and>
    mu c = 2 \<longrightarrow>
      add_proximal_term ty c server_model loss = Inr (loss + (w - w0)\<^sup>2)) \<and>
   (ty \<in> {''fed_prox'', ''fed_greedy''} \<and> distinct (map fst server_model) \<and>
    forward_loss fw (net c) b = (primary, net1) \<and> same_shapes net1 server_model \<and>
    log_interval a \<noteq> 0 \<and> \<not> (int i mod log_interval a = 0 \<and> int epoch = epochs - 1) \<longrightarrow>
      fst (train_batches fw a ty server_model rnd epoch epochs i [b] c running_loss) =
        Inr (running_loss + (primary + (mu c / 2) *
          (\<Sum>n \<in> set (map fst server_model) \<inter> set (map fst net1).
             \<Sum>i<length (the (map_of net1 n)).
               (the (map_of net1 n) ! i - the (map_of server_model n) ! i)\<^sup>2))))"
proof (intro conjI impI)
  assume h: "ty \<in> {''fed_prox'', ''fed_greedy''} \<and> distinct (map fst server_model) \<and>
    same_shapes (net c) server_model"
  then have "diff_squared_sum c (OrderedDict server_model) =
     Inr (\<Sum>n \<in> set (map fst server_model) \<inter> set (map fst (net c)).
            \<Sum>i<length (the (map_of (net c) n)).
              (the (map_of (net c) n) ! i - the (map_of server_model n) ! i)\<^sup>2)"
    by (intro diff_squared_sum_items) simp_all
  with h show "add_proximal_term ty c server_model loss =
        Inr (loss + (mu c / 2) *
          (\<Sum>n \<in> set (map fst server_model) \<inter> set (map fst (net c)).
             \<Sum>i<length (the (map_of (net c) n)).
               (the (map_of (net c) n) ! i - the (map_of server_model n) ! i)\<^sup>2))"
    by (simp add: add_proximal_term_def get_mu_def)
next
  assume "ty \<notin> {''fed_prox'', ''fed_greedy''}"
  then show "add_proximal_term ty c server_model loss = Inr loss"
    by (simp add: add_proximal_term_def)
next
  assume "ty \<in> {''fed_prox'', ''fed_greedy''} \<and> net c = [(name, [w])] \<and>
    server_model = [(name, [w0])] \<and> mu c = 2"
  then show "add_proximal_term ty c server_model loss = Inr (loss + (w - w0)\<^sup>2)"
    by (simp add: add_proximal_term_def get_mu_def diff_squared_sum_def get_nn_parameters_def
        tensor_sub_def)
next
  assume h: "ty \<in> {''fed_prox'', ''fed_greedy''} \<and> distinct (map fst server_model) \<and>
    forward_loss fw (net c) b = (primary, net1) \<and> same_shapes net1 server_model \<and>
    log_interval a \<noteq> 0 \<and> \<not> (int i mod log_interval a = 0 \<and> int epoch = epochs - 1)"
  then have "diff_squared_sum (c\<lparr>net := net1\<rparr>) (OrderedDict server_model) =
     Inr (\<Sum>n \<in> set (map fst server_model) \<inter> set (map fst (net (c\<lparr>net := net1\<rparr>))).
            \<Sum>i<length (the (map_of (net (c\<lparr>net := net1\<rparr>)) n)).
              (the (map_of (net (c\<lparr>net := net1\<rparr>)) n) ! i - the (map_of server_model n) ! i)\<^sup>2)"
    by (intro diff_squared_sum_items) simp_all
  then have p: "add_proximal_term ty (c\<lparr>net := net1\<rparr>) server_model primary =
     Inr (primary + (mu c / 2) *
          (\<Sum>n \<in> set (map fst server_model) \<inter> set (map fst net1).
             \<Sum>i<length (the (map_of net1 n)).
               (the (map_of net1 n) ! i - the (map_of server_model n) ! i)\<^sup>2))"
    using h by (simp add: add_proximal_term_def get_mu_def)
  obtain opt2 net2 where bs: "backward_step fw (optimizer c) net1 b
      (if ty \<in> set [''fed_prox'', ''fed_greedy''] then Some (get_mu c, server_model) else None)
      = (opt2, net2)"
    by (cases "backward_step fw (optimizer c) net1 b
      (if ty \<in> set [''fed_prox'', ''fed_greedy''] then Some (get_mu c, server_model) else None)")
  from h have f: "forward_loss fw (net c) b = (primary, net1)" and li: "log_interval a \<noteq> 0"
    and nl: "\<not> (int i mod log_interval a = 0 \<and> int epoch = epochs - 1)"
    by simp_all
  show "fst (train_batches fw a ty server_model rnd epoch epochs i [b] c running_loss) =
        Inr (running_loss + (primary + (mu c / 2) *
          (\<Sum>n \<in> set (map fst server_model) \<inter> set (map fst net1).
             \<Sum>i<length (the (map_of net1 n)).
               (the (map_of net1 n) ! i - the (map_of server_model n) ! i)\<^sup>2)))"
    using nl by (auto simp add: f p bs li simp del: set_simps)
qed

text \<open>
  The theorem for \<open>w = 5\<close>, \<open>w0 = 3\<close> and \<open>mu = 2\<close>: the term is \<open>4\<close>.
\<close>

theorem proximal_term_added_witness:
  "add_proximal_term ''fed_prox'' (example_client\<lparr>net := [(''w'', [5])]\<rparr>) [(''w'', [3])] 1 = Inr 5 \<and>
   add_proximal_term ''fed_avg'' (example_client\<lparr>net := [(''w'', [5])]\<rparr>) [(''w'', [3])] 1 = Inr 1 \<and>
   fst (train_batches example_framework example_arguments ''fed_greedy'' [(''w'', [3])] 3 0 1 1
          [[((), 0)]] (example_client\<lparr>net := [(''w'', [5])]\<rparr>) 0) = Inr 5"
proof -
  let ?c = "example_client\<lparr>net := [(''w'', [5])]\<rparr>"
  note inst = proximal_term_added [where ty = "''fed_prox''" and c = ?c and server_model = "[(''w'', [3])]"
      and loss = 1 and name = "''w''" and w = 5 and ?w0.0 = 3]
  have mu2: "mu ?c = 2"
    by (simp add: example_client_def)
  have "add_proximal_term ''fed_prox'' ?c [(''w'', [3])] 1 = Inr (1 + (5 - 3)\<^sup>2)"
    using inst mu2 by simp
  then have a: "add_proximal_term ''fed_prox'' ?c [(''w'', [3])] 1 = Inr 5"
    by simp
  have b: "add_proximal_term ''fed_avg'' ?c [(''w'', [3])] 1 = Inr 1"
    using proximal_term_added [where ty = "''fed_avg''" and c = ?c and server_model = "[(''w'', [3])]"
      and loss = 1]
    by simp
  have shapes: "same_shapes [(''w'', [5])] [(''w'', [3])]"
    by (simp add: same_shapes_def)
  have li: "log_interval example_arguments = 10"
    by (simp add: example_arguments_def)
  have hyp: "''fed_greedy'' \<in> {''fed_prox'', ''fed_greedy''} \<and> distinct (map fst [(''w'', [3::real])]) \<and>
    forward_loss example_framework (net ?c) [((), 0)] = (1, [(''w'', [5])]) \<and>
    same_shapes [(''w'', [5])] [(''w'', [3])] \<and>
    log_interval example_arguments \<noteq> 0 \<and>
    \<not> (int 1 mod log_interval example_arguments = 0 \<and> int 0 = 1 - 1)"
    by (simp add: example_framework_def shapes li)
  have "fst (train_batches example_framework example_arguments ''fed_greedy'' [(''w'', [3])] 3 0 1 1
          [[((), 0)]] ?c 0) =
        Inr (0 + (1 + (mu ?c / 2) *
          (\<Sum>n \<in> set (map fst [(''w'', [3::real])]) \<inter> set (map fst [(''w'', [5::real])]).
             \<Sum>i<length (the (map_of [(''w'', [5::real])] n)).
               (the (map_of [(''w'', [5])] n) ! i - the (map_of [(''w'', [3])] n) ! i)\<^sup>2)))"
    by (rule proximal_term_added [where ty = "''fed_greedy''" and c = ?c
        and server_model = "[(''w'', [3])]" and fw = example_framework and b = "[((), 0)]"
        and primary = 1 and ?net1.0 = "[(''w'', [5])]" and a = example_arguments and i = 1
        and epoch = 0 and epochs = 1 and rnd = 3 and running_loss = 0,
        THEN conjunct2, THEN conjunct2, THEN conjunct2, THEN mp, OF hyp])
  then have c: "fst (train_batches example_framework example_arguments ''fed_greedy'' [(''w'', [3])] 3 0 1 1
          [[((), 0)]] ?c 0) = Inr 5"
    by (simp add: mu2)
  from a b c show ?thesis by simp
qed

end
